theory Spec2Isabelle
  imports Complex_Main "HOL-Library.Sublist"
begin

section \<open>Data model of the property-management page\<close>

text \<open>
  The records follow the TypeScript types of the page component. A JavaScript
  \<open>number\<close> that holds money or a rate is read as a real number: rounding of IEEE
  doubles and the value NaN are outside the model. Field names carry the entity as a
  prefix where two entities share a name (\<open>id\<close>, \<open>unitId\<close>, \<open>period\<close>, ...).
\<close>

datatype Currency = JOD | ILS

datatype UnitKind = apartment | shop

datatype UtilityType = water | electricity

datatype Scope = monthly | yearly

record Settings =
  baseCurrency :: Currency
  jodToIlsRate :: real

record Unit =
  unit_id :: string
  unit_name :: string
  unit_kind :: UnitKind
  rentAmount :: real
  rentCurrency :: Currency

record Tenant =
  tenant_id :: string
  tenant_name :: string
  tenant_phone :: "string option"
  tenant_unitId :: string
  startDate :: string
  active :: bool

record UtilityCharge =
  util_id :: string
  util_unitId :: string
  util_period :: string
  util_type :: UtilityType
  util_amount :: real
  util_currency :: Currency

record Invoice =
  inv_id :: string
  inv_unitId :: string
  inv_tenantId :: string
  inv_period :: string
  inv_scope :: Scope
  rentBase :: real
  utilitiesBase :: real
  totalBase :: real

record Payment =
  pay_id :: string
  pay_tenantId :: string
  pay_unitId :: string
  pay_date :: string
  pay_amount :: real
  pay_currency :: Currency
  pay_period :: "string option"
  pay_note :: "string option"

record AppData =
  settings :: Settings
  units :: "Unit list"
  tenants :: "Tenant list"
  utilities :: "UtilityCharge list"
  invoices :: "Invoice list"
  payments :: "Payment list"

section \<open>Currency converter\<close>

text \<open>
  \<^verbatim>\<open>const rate = settings.jodToIlsRate || 5\<close>: the only falsy real number is zero.
\<close>

definition convertToBase :: "real \<Rightarrow> Currency \<Rightarrow> Settings \<Rightarrow> real" where
  "convertToBase amount from s =
     (let rate = (if jodToIlsRate s = 0 then 5 else jodToIlsRate s)
      in if baseCurrency s = JOD
         then (if from = JOD then amount else amount / rate)
         else (if from = ILS then amount else amount * rate))"

section \<open>Errors\<close>

text \<open>
  Every exception the modelled code can raise is a value: \<open>TypeError\<close> is the
  runtime error of reading a property of \<open>undefined\<close>, \<open>NotSignedIn\<close> is the error
  thrown by \<open>getCurrentUserId\<close>, \<open>MissingEnv\<close> the one thrown by
  \<open>getSupabaseClient\<close>, \<open>CreateClientFailed\<close> an exception of the library's
  \<open>createClient\<close>, \<open>RemoteError\<close> an error object returned by the remote store,
  and the last four are the failures of the rate fetch.
\<close>

datatype error =
    TypeError
  | NotSignedIn
  | MissingEnv
  | CreateClientFailed
  | RemoteError string
  | MissingApiKey
  | FetchFailed
  | HttpNotOk
  | InvalidRate

section \<open>Local state operations of the page\<close>

text \<open>
  \<^verbatim>\<open>uid(prefix)\<close> appends eight random base-36 digits to the prefix; the random part
  is an argument of the model.
\<close>

definition uid :: "string \<Rightarrow> string \<Rightarrow> string" where
  "uid pre rnd = pre @ ''_'' @ rnd"

text \<open>
  \<^verbatim>\<open>unitsById\<close>: a \<open>Map\<close> filled by \<open>forEach\<close> over \<open>data.units\<close>; a later unit with
  the same id replaces an earlier one.
\<close>

definition unitsById :: "Unit list \<Rightarrow> (string \<rightharpoonup> Unit)" where
  "unitsById us = fold (\<lambda>u m. m(unit_id u \<mapsto> u)) us Map.empty"

text \<open>\<^verbatim>\<open>removeUnit\<close>, the state update passed to \<open>setData\<close>.\<close>

definition removeUnit :: "string \<Rightarrow> AppData \<Rightarrow> AppData" where
  "removeUnit i d =
     d\<lparr>units := filter (\<lambda>u. unit_id u \<noteq> i) (units d),
       tenants := filter (\<lambda>t. tenant_unitId t \<noteq> i) (tenants d),
       utilities := filter (\<lambda>u. util_unitId u \<noteq> i) (utilities d),
       invoices := filter (\<lambda>v. inv_unitId v \<noteq> i) (invoices d),
       payments := filter (\<lambda>p. pay_unitId p \<noteq> i) (payments d)\<rparr>"

subsection \<open>Invoices tab\<close>

text \<open>
  The functions of \<open>InvoicesTab\<close> close over the props \<open>data\<close>, \<open>unitsById\<close> and
  \<open>settings\<close> and over the component state \<open>scope\<close>, \<open>period\<close> and \<open>tenantFilter\<close>;
  the model passes them as arguments. An empty \<open>tenantFilter\<close> is falsy and means
  no filter.
\<close>

definition eligibleTenants ::
  "AppData \<Rightarrow> (string \<rightharpoonup> Unit) \<Rightarrow> Scope \<Rightarrow> string \<Rightarrow> Tenant list" where
  "eligibleTenants d byId scope tenantFilter =
     (let list = filter active (tenants d);
          filtered = filter (\<lambda>t.
            case byId (tenant_unitId t) of
              None \<Rightarrow> False
            | Some unit \<Rightarrow>
                if scope = monthly \<and> unit_kind unit \<noteq> apartment then False
                else if scope = yearly \<and> unit_kind unit \<noteq> shop then False
                else True) list
      in if tenantFilter \<noteq> [] then filter (\<lambda>t. tenant_id t = tenantFilter) filtered
         else filtered)"

text \<open>
  \<^verbatim>\<open>periodStr.slice(0, 4)\<close> is \<open>take 4\<close> and \<^verbatim>\<open>startsWith\<close> is \<open>prefix\<close>; period
  strings are ASCII, so bytes and UTF-16 code units coincide.
\<close>

definition periodFilter :: "string \<Rightarrow> Scope \<Rightarrow> UtilityCharge \<Rightarrow> bool" where
  "periodFilter periodStr scopeSel u =
     (if scopeSel = monthly then util_period u = periodStr
      else (let year = take 4 periodStr in prefix year (util_period u)))"

definition sumUtilitiesBase ::
  "AppData \<Rightarrow> Settings \<Rightarrow> string \<Rightarrow> string \<Rightarrow> Scope \<Rightarrow> real" where
  "sumUtilitiesBase d s unitId periodStr scopeSel =
     foldl (\<lambda>acc u. acc + convertToBase (util_amount u) (util_currency u) s) 0
       (filter (periodFilter periodStr scopeSel)
         (filter (\<lambda>u. util_unitId u = unitId) (utilities d)))"

text \<open>
  The body of the \<open>tenants.map\<close> callback of \<open>generateInvoices\<close>. The source asserts
  the unit with \<^verbatim>\<open>unitsById.get(t.unitId)!\<close>; were it \<open>undefined\<close>, reading
  \<open>unit.rentAmount\<close> would throw.
\<close>

definition makeInvoice ::
  "AppData \<Rightarrow> (string \<rightharpoonup> Unit) \<Rightarrow> Settings \<Rightarrow> Scope \<Rightarrow> string \<Rightarrow> Tenant \<Rightarrow> string
     \<Rightarrow> error + Invoice" where
  "makeInvoice d byId s scope period t rnd =
     (let scopePeriod = (if scope = monthly then period else take 4 period)
      in case byId (tenant_unitId t) of
           None \<Rightarrow> Inl TypeError
         | Some unit \<Rightarrow>
             (let rentBase = convertToBase (rentAmount unit) (rentCurrency unit) s
                               * (if scope = yearly then 1 else 1);
                  utilitiesBase = sumUtilitiesBase d s (unit_id unit) period scope;
                  totalBase = rentBase + utilitiesBase
              in Inr \<lparr>inv_id = uid ''inv'' rnd,
                      inv_unitId = unit_id unit,
                      inv_tenantId = tenant_id t,
                      inv_period = scopePeriod,
                      inv_scope = scope,
                      rentBase = rentBase,
                      utilitiesBase = utilitiesBase,
                      totalBase = totalBase\<rparr>))"

text \<open>\<open>Array.map\<close> with a callback that may throw: the first exception ends the map.\<close>

fun mapThrowing :: "('a \<Rightarrow> error + 'b) \<Rightarrow> 'a list \<Rightarrow> error + 'b list" where
  "mapThrowing f [] = Inr []"
| "mapThrowing f (x # xs) =
     (case f x of
        Inl e \<Rightarrow> Inl e
      | Inr y \<Rightarrow> (case mapThrowing f xs of Inl e \<Rightarrow> Inl e | Inr ys \<Rightarrow> Inr (y # ys)))"

text \<open>
  \<open>newInvoices\<close> of \<open>generateInvoices\<close>; \<open>rnd k\<close> is the random part of the id drawn
  for the \<open>k\<close>-th eligible tenant.
\<close>

definition newInvoices ::
  "AppData \<Rightarrow> (string \<rightharpoonup> Unit) \<Rightarrow> Settings \<Rightarrow> Scope \<Rightarrow> string \<Rightarrow> string \<Rightarrow> (nat \<Rightarrow> string)
     \<Rightarrow> error + Invoice list" where
  "newInvoices d byId s scope period tenantFilter rnd =
     mapThrowing (\<lambda>(k, t). makeInvoice d byId s scope period t (rnd k))
       (enumerate 0 (eligibleTenants d byId scope tenantFilter))"

text \<open>
  \<open>generateInvoices\<close> up to the local state update
  \<^verbatim>\<open>setData((d) => ({ ...d, invoices: [...newInvoices, ...d.invoices] }))\<close>.
\<close>

definition generateInvoices ::
  "AppData \<Rightarrow> (string \<rightharpoonup> Unit) \<Rightarrow> Settings \<Rightarrow> Scope \<Rightarrow> string \<Rightarrow> string \<Rightarrow> (nat \<Rightarrow> string)
     \<Rightarrow> error + AppData" where
  "generateInvoices d byId s scope period tenantFilter rnd =
     (case newInvoices d byId s scope period tenantFilter rnd of
        Inl e \<Rightarrow> Inl e
      | Inr new \<Rightarrow> Inr (d\<lparr>invoices := new @ invoices d\<rparr>))"

text \<open>
  The page renders the tab as
  \<^verbatim>\<open><InvoicesTab data={data} unitsById={unitsById} settings={data.settings} />\<close>,
  with \<open>unitsById\<close> memoised from \<open>data.units\<close>.
\<close>

definition Home_newInvoices ::
  "AppData \<Rightarrow> Scope \<Rightarrow> string \<Rightarrow> string \<Rightarrow> (nat \<Rightarrow> string) \<Rightarrow> error + Invoice list" where
  "Home_newInvoices d scope period tenantFilter rnd =
     newInvoices d (unitsById (units d)) (settings d) scope period tenantFilter rnd"

definition Home_generateInvoices ::
  "AppData \<Rightarrow> Scope \<Rightarrow> string \<Rightarrow> string \<Rightarrow> (nat \<Rightarrow> string) \<Rightarrow> error + AppData" where
  "Home_generateInvoices d scope period tenantFilter rnd =
     generateInvoices d (unitsById (units d)) (settings d) scope period tenantFilter rnd"

section \<open>Persistence gateway\<close>

text \<open>
  The argument types of the gateway functions, with the column names of the store.
\<close>

record DbSettings =
  base_currency :: Currency
  jod_to_ils_rate :: real

record DbUnit =
  u_id :: string
  u_name :: string
  u_kind :: UnitKind
  rent_amount :: real
  rent_currency :: Currency

record DbTenant =
  t_id :: string
  t_name :: string
  t_phone :: "string option"
  t_unit_id :: string
  start_date :: string
  t_active :: bool

record DbUtility =
  ut_id :: string
  ut_unit_id :: string
  ut_period :: string
  ut_type :: UtilityType
  ut_amount :: real
  ut_currency :: Currency

record DbInvoice =
  i_id :: string
  i_unit_id :: string
  i_tenant_id :: string
  i_period :: string
  i_scope :: Scope
  rent_base :: real
  utilities_base :: real
  total_base :: real

record DbPayment =
  p_id :: string
  p_tenant_id :: string
  p_unit_id :: string
  p_date :: string
  p_amount :: real
  p_currency :: Currency
  p_period :: "string option"
  p_note :: "string option"

text \<open>
  The remote store is outside the repository. The model records each request the
  gateway sends to it, with the table, the payload and the \<open>owner_id\<close> the request
  carries; what the store answers is a parameter \<open>remote\<close> of every gateway function
  (\<open>None\<close>: no error object in the reply).
\<close>

datatype db_row =
    SettingsRow DbSettings string
  | UnitRow DbUnit
  | TenantRow DbTenant
  | UtilityRow DbUtility
  | InvoiceRow DbInvoice
  | PaymentRow DbPayment

datatype db_request =
    Upsert string db_row string
  | Insert string db_row string
  | UpdateActive string bool string string
  | Delete string string string

text \<open>
  The client side of the store: the two environment variables, whether the module
  variable \<open>cached\<close> holds a client, the id of the user \<open>auth.getUser()\<close> reports
  (\<open>None\<close> when \<open>data.user\<close> is null), and the requests sent so far.
  \<open>createClient\<close> belongs to the store's client library, not to the repository: it
  returns a client or throws (on a URL it does not accept, for one). The field
  \<open>createClient_accepts\<close> says for which URL and key it returns a client.
\<close>

record Supabase =
  env_url :: "string option"
  env_key :: "string option"
  createClient_accepts :: "string \<Rightarrow> string \<Rightarrow> bool"
  cached :: bool
  auth_user_id :: "string option"
  sent :: "db_request list"

text \<open>An environment variable or string is falsy when it is undefined or empty.\<close>

definition falsy :: "string option \<Rightarrow> bool" where
  "falsy v = (case v of None \<Rightarrow> True | Some x \<Rightarrow> x = [])"

text \<open>
  \<open>getSupabaseClient\<close>: the cached client if there is one; otherwise the two
  variables are checked, then \<open>createClient\<close> is called, and only a client it
  returns is stored in \<open>cached\<close>.
\<close>

definition getSupabaseClient :: "Supabase \<Rightarrow> (error + unit) \<times> Supabase" where
  "getSupabaseClient sb =
     (if cached sb then (Inr (), sb)
      else if falsy (env_url sb) \<or> falsy (env_key sb) then (Inl MissingEnv, sb)
      else (case (env_url sb, env_key sb) of
              (Some url, Some key) \<Rightarrow>
                if createClient_accepts sb url key then (Inr (), sb\<lparr>cached := True\<rparr>)
                else (Inl CreateClientFailed, sb)
            | _ \<Rightarrow> (Inl MissingEnv, sb)))"

definition getCurrentUserId :: "Supabase \<Rightarrow> (error + string) \<times> Supabase" where
  "getCurrentUserId sb =
     (case getSupabaseClient sb of
        (Inl e, sb1) \<Rightarrow> (Inl e, sb1)
      | (Inr _, sb1) \<Rightarrow>
          (case auth_user_id sb1 of
             None \<Rightarrow> (Inl NotSignedIn, sb1)
           | Some userId \<Rightarrow>
               if userId = [] then (Inl NotSignedIn, sb1) else (Inr userId, sb1)))"

text \<open>
  Every write function of the gateway has the same three steps: get the client, get
  the owner id, send one request built with that id and throw the error of the reply
  if there is one. \<open>gatewayWrite\<close> is that common body; \<open>mk\<close> builds the request.
\<close>

definition gatewayWrite ::
  "(db_request \<Rightarrow> error option) \<Rightarrow> (string \<Rightarrow> db_request) \<Rightarrow> Supabase
     \<Rightarrow> (error + unit) \<times> Supabase" where
  "gatewayWrite remote mk sb =
     (case getSupabaseClient sb of
        (Inl e, sb1) \<Rightarrow> (Inl e, sb1)
      | (Inr _, sb1) \<Rightarrow>
          (case getCurrentUserId sb1 of
             (Inl e, sb2) \<Rightarrow> (Inl e, sb2)
           | (Inr ownerId, sb2) \<Rightarrow>
               (let rq = mk ownerId;
                    sb3 = sb2\<lparr>sent := sent sb2 @ [rq]\<rparr>
                in case remote rq of
                     Some e \<Rightarrow> (Inl e, sb3)
                   | None \<Rightarrow> (Inr (), sb3))))"

text \<open>\<open>updated_at\<close> is the ISO text of the clock at the call.\<close>

definition dbUpsertSettings ::
  "(db_request \<Rightarrow> error option) \<Rightarrow> string \<Rightarrow> DbSettings \<Rightarrow> Supabase
     \<Rightarrow> (error + unit) \<times> Supabase" where
  "dbUpsertSettings remote updated_at st =
     gatewayWrite remote (\<lambda>ownerId. Upsert ''settings'' (SettingsRow st updated_at) ownerId)"

definition dbInsertUnit ::
  "(db_request \<Rightarrow> error option) \<Rightarrow> DbUnit \<Rightarrow> Supabase \<Rightarrow> (error + unit) \<times> Supabase" where
  "dbInsertUnit remote unit =
     gatewayWrite remote (\<lambda>ownerId. Insert ''units'' (UnitRow unit) ownerId)"

definition dbDeleteUnit ::
  "(db_request \<Rightarrow> error option) \<Rightarrow> string \<Rightarrow> Supabase \<Rightarrow> (error + unit) \<times> Supabase" where
  "dbDeleteUnit remote i = gatewayWrite remote (\<lambda>ownerId. Delete ''units'' i ownerId)"

definition dbInsertTenant ::
  "(db_request \<Rightarrow> error option) \<Rightarrow> DbTenant \<Rightarrow> Supabase \<Rightarrow> (error + unit) \<times> Supabase" where
  "dbInsertTenant remote tenant =
     gatewayWrite remote (\<lambda>ownerId. Insert ''tenants'' (TenantRow tenant) ownerId)"

definition dbToggleTenantActive ::
  "(db_request \<Rightarrow> error option) \<Rightarrow> string \<Rightarrow> bool \<Rightarrow> Supabase
     \<Rightarrow> (error + unit) \<times> Supabase" where
  "dbToggleTenantActive remote i act =
     gatewayWrite remote (\<lambda>ownerId. UpdateActive ''tenants'' act i ownerId)"

definition dbDeleteTenant ::
  "(db_request \<Rightarrow> error option) \<Rightarrow> string \<Rightarrow> Supabase \<Rightarrow> (error + unit) \<times> Supabase" where
  "dbDeleteTenant remote i = gatewayWrite remote (\<lambda>ownerId. Delete ''tenants'' i ownerId)"

definition dbInsertUtility ::
  "(db_request \<Rightarrow> error option) \<Rightarrow> DbUtility \<Rightarrow> Supabase \<Rightarrow> (error + unit) \<times> Supabase" where
  "dbInsertUtility remote util =
     gatewayWrite remote (\<lambda>ownerId. Insert ''utilities'' (UtilityRow util) ownerId)"

definition dbDeleteUtility ::
  "(db_request \<Rightarrow> error option) \<Rightarrow> string \<Rightarrow> Supabase \<Rightarrow> (error + unit) \<times> Supabase" where
  "dbDeleteUtility remote i = gatewayWrite remote (\<lambda>ownerId. Delete ''utilities'' i ownerId)"

definition dbInsertInvoice ::
  "(db_request \<Rightarrow> error option) \<Rightarrow> DbInvoice \<Rightarrow> Supabase \<Rightarrow> (error + unit) \<times> Supabase" where
  "dbInsertInvoice remote invoice =
     gatewayWrite remote (\<lambda>ownerId. Insert ''invoices'' (InvoiceRow invoice) ownerId)"

definition dbDeleteInvoice ::
  "(db_request \<Rightarrow> error option) \<Rightarrow> string \<Rightarrow> Supabase \<Rightarrow> (error + unit) \<times> Supabase" where
  "dbDeleteInvoice remote i = gatewayWrite remote (\<lambda>ownerId. Delete ''invoices'' i ownerId)"

definition dbInsertPayment ::
  "(db_request \<Rightarrow> error option) \<Rightarrow> DbPayment \<Rightarrow> Supabase \<Rightarrow> (error + unit) \<times> Supabase" where
  "dbInsertPayment remote pay =
     gatewayWrite remote (\<lambda>ownerId. Insert ''payments'' (PaymentRow pay) ownerId)"

definition dbDeletePayment ::
  "(db_request \<Rightarrow> error option) \<Rightarrow> string \<Rightarrow> Supabase \<Rightarrow> (error + unit) \<times> Supabase" where
  "dbDeletePayment remote i = gatewayWrite remote (\<lambda>ownerId. Delete ''payments'' i ownerId)"

text \<open>
  The write operations of the gateway as one datatype, so that a statement can range
  over all of them.
\<close>

datatype db_write =
    UpsertSettings string DbSettings
  | InsertUnit DbUnit
  | DeleteUnit string
  | InsertTenant DbTenant
  | ToggleTenantActive string bool
  | DeleteTenant string
  | InsertUtility DbUtility
  | DeleteUtility string
  | InsertInvoice DbInvoice
  | DeleteInvoice string
  | InsertPayment DbPayment
  | DeletePayment string

fun runWrite ::
  "(db_request \<Rightarrow> error option) \<Rightarrow> db_write \<Rightarrow> Supabase \<Rightarrow> (error + unit) \<times> Supabase" where
  "runWrite remote (UpsertSettings ts st) = dbUpsertSettings remote ts st"
| "runWrite remote (InsertUnit x) = dbInsertUnit remote x"
| "runWrite remote (DeleteUnit i) = dbDeleteUnit remote i"
| "runWrite remote (InsertTenant x) = dbInsertTenant remote x"
| "runWrite remote (ToggleTenantActive i a) = dbToggleTenantActive remote i a"
| "runWrite remote (DeleteTenant i) = dbDeleteTenant remote i"
| "runWrite remote (InsertUtility x) = dbInsertUtility remote x"
| "runWrite remote (DeleteUtility i) = dbDeleteUtility remote i"
| "runWrite remote (InsertInvoice x) = dbInsertInvoice remote x"
| "runWrite remote (DeleteInvoice i) = dbDeleteInvoice remote i"
| "runWrite remote (InsertPayment x) = dbInsertPayment remote x"
| "runWrite remote (DeletePayment i) = dbDeletePayment remote i"

section \<open>Rate fetch and daily refresh\<close>

text \<open>
  The reply of the rate provider is an input: the \<open>fetch\<close> promise rejects, or it
  gives a response with its \<open>ok\<close> flag and a body that fails to parse as JSON or
  parses to a document whose \<open>data.ILS.value\<close> is a number (\<open>Some\<close>) or not.
\<close>

datatype http_body = Malformed | Json "real option"

datatype http_reply = Rejected | Response bool http_body

definition fetchJodIlsRate :: "string option \<Rightarrow> http_reply \<Rightarrow> error + real" where
  "fetchJodIlsRate apiKey reply =
     (if falsy apiKey then Inl MissingApiKey
      else case reply of
             Rejected \<Rightarrow> Inl FetchFailed
           | Response ok body \<Rightarrow>
               if \<not> ok then Inl HttpNotOk
               else (case body of
                       Malformed \<Rightarrow> Inl InvalidRate
                     | Json None \<Rightarrow> Inl InvalidRate
                     | Json (Some rate) \<Rightarrow> Inr rate))"

text \<open>
  The state the refresh effect works on: the page data, the local cache entry
  \<open>zc_rate_last\<close>, the client side of the store, and the number of requests made to
  the rate provider. The cache entry is only ever written by the effect, as
  \<^verbatim>\<open>String(now)\<close> with \<open>now\<close> an integer count of milliseconds, so the model keeps
  the integer it denotes (\<open>None\<close>: the key is absent).
\<close>

record Page =
  data :: AppData
  zc_rate_last :: "int option"
  supabase :: Supabase
  rate_requests :: nat

text \<open>
  The gate of the effect:
  \<^verbatim>\<open>const last = Number(localStorage.getItem(key) || "0");\<close>
  \<^verbatim>\<open>if (!last || now - last > 24 * 60 * 60 * 1000)\<close>.
\<close>

definition rateIsStale :: "int option \<Rightarrow> int \<Rightarrow> bool" where
  "rateIsStale stored now =
     (let last = (case stored of None \<Rightarrow> 0 | Some v \<Rightarrow> v)
      in last = 0 \<or> now - last > 24 * 60 * 60 * 1000)"

text \<open>
  The effect body. Any exception inside it is caught and dropped, which leaves the
  state as it was when the exception was thrown.
\<close>

definition dailyRateEffect ::
  "(db_request \<Rightarrow> error option) \<Rightarrow> string option \<Rightarrow> http_reply \<Rightarrow> int \<Rightarrow> string \<Rightarrow> Page
     \<Rightarrow> Page" where
  "dailyRateEffect remote apiKey reply now stamp pg =
     (if rateIsStale (zc_rate_last pg) now then
        (let pg1 = (if falsy apiKey then pg else pg\<lparr>rate_requests := rate_requests pg + 1\<rparr>)
         in case fetchJodIlsRate apiKey reply of
              Inl e \<Rightarrow> pg1
            | Inr rate \<Rightarrow>
                (case dbUpsertSettings remote stamp
                        \<lparr>base_currency = baseCurrency (settings (data pg1)),
                         jod_to_ils_rate = rate\<rparr> (supabase pg1) of
                   (Inl e, sb) \<Rightarrow> pg1\<lparr>supabase := sb\<rparr>
                 | (Inr _, sb) \<Rightarrow>
                     pg1\<lparr>supabase := sb,
                         data := (data pg1)\<lparr>settings :=
                                   (settings (data pg1))\<lparr>jodToIlsRate := rate\<rparr>\<rparr>,
                         zc_rate_last := Some now\<rparr>))
      else pg)"

section \<open>Example states\<close>

text \<open>
  The scenario of the spec's invoice example: one apartment rented for 200 JOD, its
  one active tenant, and one water charge of 50 JOD for May 2024. The second state
  holds charges of several months and years for the yearly scope.
\<close>

definition demo_unit :: Unit where
  "demo_unit = \<lparr>unit_id = ''unit_a'', unit_name = ''3A'', unit_kind = apartment,
                 rentAmount = 200, rentCurrency = JOD\<rparr>"

definition demo_tenant :: Tenant where
  "demo_tenant = \<lparr>tenant_id = ''tenant_a'', tenant_name = ''T'', tenant_phone = None,
                   tenant_unitId = ''unit_a'', startDate = ''2024-01-01'', active = True\<rparr>"

definition demo_charge :: UtilityCharge where
  "demo_charge = \<lparr>util_id = ''util_a'', util_unitId = ''unit_a'', util_period = ''2024-05'',
                   util_type = water, util_amount = 50, util_currency = JOD\<rparr>"

definition demo_data :: AppData where
  "demo_data = \<lparr>settings = \<lparr>baseCurrency = JOD, jodToIlsRate = 5\<rparr>,
                 units = [demo_unit], tenants = [demo_tenant], utilities = [demo_charge],
                 invoices = [], payments = []\<rparr>"

definition year_data :: AppData where
  "year_data = demo_data\<lparr>utilities :=
     [\<lparr>util_id = ''c1'', util_unitId = ''unit_a'', util_period = ''2024-01'',
        util_type = water, util_amount = 10, util_currency = JOD\<rparr>,
      \<lparr>util_id = ''c2'', util_unitId = ''unit_a'', util_period = ''2024-12'',
        util_type = electricity, util_amount = 20, util_currency = JOD\<rparr>,
      \<lparr>util_id = ''c3'', util_unitId = ''unit_a'', util_period = ''2023-12'',
        util_type = water, util_amount = 40, util_currency = JOD\<rparr>,
      \<lparr>util_id = ''c4'', util_unitId = ''unit_b'', util_period = ''2024-06'',
        util_type = water, util_amount = 80, util_currency = JOD\<rparr>,
      \<lparr>util_id = ''c5'', util_unitId = ''unit_a'', util_period = ''2025-01'',
        util_type = water, util_amount = 160, util_currency = JOD\<rparr>]\<rparr>"

text \<open>
  A state with a second unit (a shop), a tenant of each unit and a tenant whose unit
  is not in the units collection, and records of every kind for both units.
\<close>

definition other_unit :: Unit where
  "other_unit = \<lparr>unit_id = ''unit_b'', unit_name = ''Shop 1'', unit_kind = shop,
                  rentAmount = 3000, rentCurrency = ILS\<rparr>"

definition other_tenant :: Tenant where
  "other_tenant = \<lparr>tenant_id = ''tenant_b'', tenant_name = ''S'', tenant_phone = None,
                    tenant_unitId = ''unit_b'', startDate = ''2023-06-01'', active = True\<rparr>"

definition orphan_tenant :: Tenant where
  "orphan_tenant = \<lparr>tenant_id = ''tenant_c'', tenant_name = ''O'', tenant_phone = None,
                     tenant_unitId = ''unit_gone'', startDate = ''2023-06-01'', active = True\<rparr>"

definition two_unit_data :: AppData where
  "two_unit_data = \<lparr>settings = \<lparr>baseCurrency = JOD, jodToIlsRate = 5\<rparr>,
     units = [demo_unit, other_unit],
     tenants = [demo_tenant, other_tenant, orphan_tenant],
     utilities = [demo_charge,
       \<lparr>util_id = ''util_b'', util_unitId = ''unit_b'', util_period = ''2024'',
        util_type = electricity, util_amount = 75, util_currency = ILS\<rparr>],
     invoices =
       [\<lparr>inv_id = ''inv_a'', inv_unitId = ''unit_a'', inv_tenantId = ''tenant_a'',
         inv_period = ''2024-05'', inv_scope = monthly,
         rentBase = 200, utilitiesBase = 50, totalBase = 250\<rparr>,
        \<lparr>inv_id = ''inv_b'', inv_unitId = ''unit_b'', inv_tenantId = ''tenant_b'',
         inv_period = ''2024'', inv_scope = yearly,
         rentBase = 600, utilitiesBase = 15, totalBase = 615\<rparr>],
     payments =
       [\<lparr>pay_id = ''pay_a'', pay_tenantId = ''tenant_a'', pay_unitId = ''unit_a'',
         pay_date = ''2024-06-01'', pay_amount = 250, pay_currency = JOD,
         pay_period = Some ''2024-05'', pay_note = None\<rparr>,
        \<lparr>pay_id = ''pay_b'', pay_tenantId = ''tenant_b'', pay_unitId = ''unit_b'',
         pay_date = ''2024-06-02'', pay_amount = 100, pay_currency = ILS,
         pay_period = None, pay_note = Some ''part''\<rparr>]\<rparr>"

text \<open>
  A configured client with and without a signed-in user, the signed-out client
  without the URL variable and with a URL the library rejects, and a page whose rate
  was refreshed at 1700000000000 ms, or never. In these states \<open>createClient\<close>
  accepts the URLs that start with \<open>http://\<close> or \<open>https://\<close>.
\<close>

definition signed_in :: Supabase where
  "signed_in = \<lparr>env_url = Some ''https://db.example'', env_key = Some ''anon'',
                 createClient_accepts =
                   (\<lambda>url key. prefix ''http://'' url \<or> prefix ''https://'' url),
                 cached = False, auth_user_id = Some ''owner_1'', sent = []\<rparr>"

definition signed_out :: Supabase where
  "signed_out = signed_in\<lparr>auth_user_id := None\<rparr>"

definition no_env :: Supabase where
  "no_env = signed_out\<lparr>env_url := None\<rparr>"

definition bad_url :: Supabase where
  "bad_url = signed_out\<lparr>env_url := Some ''x''\<rparr>"

definition fresh_page :: Page where
  "fresh_page = \<lparr>data = demo_data, zc_rate_last = Some 1700000000000,
                  supabase = signed_in, rate_requests = 0\<rparr>"

definition stale_page :: Page where
  "stale_page = fresh_page\<lparr>zc_rate_last := None\<rparr>"

section \<open>Auxiliary facts\<close>

lemma fold_upd_lookup:
  "fold (\<lambda>u m. m(unit_id u \<mapsto> u)) us m0 k = Some u
   \<Longrightarrow> (u \<in> set us \<and> unit_id u = k) \<or> m0 k = Some u"
  by (induction us arbitrary: m0) (fastforce split: if_splits)+

lemma unitsById_sound:
  "unitsById us k = Some u \<Longrightarrow> u \<in> set us \<and> unit_id u = k"
  using fold_upd_lookup [of us Map.empty k u] by (simp add: unitsById_def)

lemma foldl_add_sum:
  "foldl (\<lambda>acc u. acc + f u) a xs = a + sum_list (map f xs)" for a :: real
  by (induction xs arbitrary: a) (simp_all add: add.assoc)

lemma mapThrowing_all_Inr:
  "(\<forall>x \<in> set xs. \<not> isl (f x)) \<Longrightarrow> mapThrowing f xs = Inr (map (\<lambda>x. projr (f x)) xs)"
  by (induction xs) (auto split: sum.splits)

lemma eligible_lookup:
  "t \<in> set (eligibleTenants d byId scope tf) \<Longrightarrow>
     \<exists>u. byId (tenant_unitId t) = Some u \<and> active t \<and> t \<in> set (tenants d)
        \<and> unit_kind u = (if scope = monthly then apartment else shop)
        \<and> (tf \<noteq> [] \<longrightarrow> tenant_id t = tf)"
  by (cases scope) (auto simp: eligibleTenants_def Let_def split: option.splits if_splits)

lemma makeInvoice_eligible:
  "t \<in> set (eligibleTenants d byId scope tf) \<Longrightarrow> \<not> isl (makeInvoice d byId s scope period t r)"
  by (drule eligible_lookup) (auto simp: makeInvoice_def Let_def)

lemma newInvoices_eq:
  "newInvoices d byId s scope period tf rnd =
     Inr (map (\<lambda>(k, t). projr (makeInvoice d byId s scope period t (rnd k)))
            (enumerate 0 (eligibleTenants d byId scope tf)))"
proof -
  have "\<forall>x \<in> set (enumerate 0 (eligibleTenants d byId scope tf)).
          \<not> isl ((\<lambda>(k, t). makeInvoice d byId s scope period t (rnd k)) x)"
    by (auto simp: in_set_enumerate_eq intro!: makeInvoice_eligible [unfolded not_def, rule_format] dest: nth_mem)
  from mapThrowing_all_Inr [OF this] show ?thesis
    by (simp add: newInvoices_def case_prod_unfold)
qed

lemma invoice_rows:
  "\<exists>invs. newInvoices d byId s scope period tf rnd = Inr invs
     \<and> length invs = length (eligibleTenants d byId scope tf)
     \<and> (\<forall>k < length invs.
           \<exists>u. byId (tenant_unitId (eligibleTenants d byId scope tf ! k)) = Some u
             \<and> inv_tenantId (invs ! k) = tenant_id (eligibleTenants d byId scope tf ! k)
             \<and> inv_unitId (invs ! k) = unit_id u
             \<and> rentBase (invs ! k) = convertToBase (rentAmount u) (rentCurrency u) s
             \<and> utilitiesBase (invs ! k) = sumUtilitiesBase d s (unit_id u) period scope
             \<and> totalBase (invs ! k) = rentBase (invs ! k) + utilitiesBase (invs ! k))"
proof -
  let ?el = "eligibleTenants d byId scope tf"
  let ?invs = "map (\<lambda>(k, t). projr (makeInvoice d byId s scope period t (rnd k)))
                 (enumerate 0 ?el)"
  have "\<exists>u. byId (tenant_unitId (?el ! k)) = Some u
             \<and> inv_tenantId (?invs ! k) = tenant_id (?el ! k)
             \<and> inv_unitId (?invs ! k) = unit_id u
             \<and> rentBase (?invs ! k) = convertToBase (rentAmount u) (rentCurrency u) s
             \<and> utilitiesBase (?invs ! k) = sumUtilitiesBase d s (unit_id u) period scope
             \<and> totalBase (?invs ! k) = rentBase (?invs ! k) + utilitiesBase (?invs ! k)"
    if "k < length ?el" for k
  proof -
    from that have "?el ! k \<in> set ?el" by simp
    from eligible_lookup [OF this] obtain u
      where u: "byId (tenant_unitId (?el ! k)) = Some u" by blast
    from that have "?invs ! k = projr (makeInvoice d byId s scope period (?el ! k) (rnd k))"
      by (simp add: nth_enumerate_eq)
    with u show ?thesis by (simp add: makeInvoice_def Let_def)
  qed
  then show ?thesis
    by (intro exI [of _ ?invs]) (simp add: newInvoices_eq)
qed

lemma prefix_take4:
  "4 \<le> length p \<Longrightarrow> prefix (take 4 p) q \<longleftrightarrow> take 4 q = take 4 p"
proof
  assume "prefix (take 4 p) q"
  then obtain zs where "q = take 4 p @ zs" by (auto simp: prefix_def)
  moreover assume "4 \<le> length p"
  ultimately show "take 4 q = take 4 p" by simp
next
  assume "take 4 q = take 4 p"
  then have "take 4 p = take 4 q" by simp
  then show "prefix (take 4 p) q" by (simp add: take_is_prefix)
qed

lemma rateIsStale_iff:
  "rateIsStale stored now \<longleftrightarrow>
     stored = None \<or> stored = Some 0 \<or> (\<exists>t. stored = Some t \<and> 86400000 < now - t)"
  by (cases stored) (auto simp: rateIsStale_def)

lemma dailyRateEffect_fresh:
  "\<not> rateIsStale (zc_rate_last pg) now \<Longrightarrow> dailyRateEffect remote apiKey reply now stamp pg = pg"
  by (simp add: dailyRateEffect_def)

lemma dailyRateEffect_requests:
  "rate_requests (dailyRateEffect remote apiKey reply now stamp pg) \<noteq> rate_requests pg
     \<Longrightarrow> rateIsStale (zc_rate_last pg) now"
  by (rule ccontr) (simp add: dailyRateEffect_fresh)

lemma getSupabaseClient_result:
  "getSupabaseClient sb =
     (if cached sb then (Inr (), sb)
      else if falsy (env_url sb) \<or> falsy (env_key sb) then (Inl MissingEnv, sb)
      else if createClient_accepts sb (the (env_url sb)) (the (env_key sb))
           then (Inr (), sb\<lparr>cached := True\<rparr>)
           else (Inl CreateClientFailed, sb))"
  by (auto simp: getSupabaseClient_def falsy_def split: option.splits)

lemma gatewayWrite_no_identity:
  assumes "falsy (auth_user_id sb)"
  shows "sent (snd (gatewayWrite remote mk sb)) = sent sb"
    and "fst (gatewayWrite remote mk sb) =
           (case fst (getSupabaseClient sb) of Inl e \<Rightarrow> Inl e | Inr u \<Rightarrow> Inl NotSignedIn)"
  using assms
  by (auto simp: gatewayWrite_def getCurrentUserId_def getSupabaseClient_result falsy_def
      split: option.splits)

lemma gatewayWrite_identity:
  assumes "auth_user_id sb = Some owner" and "owner \<noteq> []"
    and "fst (getSupabaseClient sb) = Inr ()"
  shows "sent (snd (gatewayWrite remote mk sb)) = sent sb @ [mk owner]"
  using assms
  by (auto simp: gatewayWrite_def getCurrentUserId_def getSupabaseClient_result falsy_def
      Let_def split: option.splits if_splits)

lemma runWrite_gateway: "\<exists>mk. runWrite remote w = gatewayWrite remote mk"
  by (cases w)
    (auto simp: dbUpsertSettings_def dbInsertUnit_def dbDeleteUnit_def dbInsertTenant_def
      dbToggleTenantActive_def dbDeleteTenant_def dbInsertUtility_def dbDeleteUtility_def
      dbInsertInvoice_def dbDeleteInvoice_def dbInsertPayment_def dbDeletePayment_def)

lemma write_with_identity_example:
  "runWrite (\<lambda>rq. None) (DeleteUnit ''unit_a'') signed_in
     = (Inr (), signed_in\<lparr>cached := True, sent := [Delete ''units'' ''unit_a'' ''owner_1'']\<rparr>)"
  by (simp add: dbDeleteUnit_def gatewayWrite_def getCurrentUserId_def getSupabaseClient_def
      signed_in_def falsy_def prefix_def)

section \<open>Currency converter: properties\<close>

text \<open>
  Claim C1. With the base currency JOD an amount in ILS is divided by the rate, and
  with the base currency ILS an amount in JOD is multiplied by it, where the rate is
  \<open>jodToIlsRate\<close> unless that is zero, and 5 then. In particular 100 ILS are 20 JOD
  and 20 JOD are 100 ILS at the rate 5.
\<close>

theorem convertToBase_cross_currency:
  "(baseCurrency s = JOD \<longrightarrow>
      convertToBase x ILS s = x / (if jodToIlsRate s = 0 then 5 else jodToIlsRate s))
   \<and> (baseCurrency s = ILS \<longrightarrow>
      convertToBase x JOD s = x * (if jodToIlsRate s = 0 then 5 else jodToIlsRate s))
   \<and> convertToBase 100 ILS \<lparr>baseCurrency = JOD, jodToIlsRate = 5\<rparr> = 20
   \<and> convertToBase 20 JOD \<lparr>baseCurrency = ILS, jodToIlsRate = 5\<rparr> = 100"
  by (simp add: convertToBase_def)

theorem convertToBase_cross_currency_witness:
  "baseCurrency \<lparr>baseCurrency = JOD, jodToIlsRate = 0\<rparr> = JOD
   \<and> convertToBase 35 ILS \<lparr>baseCurrency = JOD, jodToIlsRate = 0\<rparr> = 7
   \<and> baseCurrency \<lparr>baseCurrency = ILS, jodToIlsRate = 4\<rparr> = ILS
   \<and> convertToBase 3 JOD \<lparr>baseCurrency = ILS, jodToIlsRate = 4\<rparr> = 12"
  using convertToBase_cross_currency [of "\<lparr>baseCurrency = JOD, jodToIlsRate = 0\<rparr>" 35]
    convertToBase_cross_currency [of "\<lparr>baseCurrency = ILS, jodToIlsRate = 4\<rparr>" 3]
  by simp

text \<open>
  Claim C2. An amount already in the base currency is returned as it is, for either
  base currency.
\<close>

theorem convertToBase_same_currency:
  "c = baseCurrency s \<Longrightarrow> convertToBase x c s = x"
  by (cases c) (simp_all add: convertToBase_def)

theorem convertToBase_same_currency_witness:
  "JOD = baseCurrency \<lparr>baseCurrency = JOD, jodToIlsRate = 3\<rparr>
   \<and> convertToBase 17 JOD \<lparr>baseCurrency = JOD, jodToIlsRate = 3\<rparr> = 17
   \<and> ILS = baseCurrency \<lparr>baseCurrency = ILS, jodToIlsRate = 3\<rparr>
   \<and> convertToBase 17 ILS \<lparr>baseCurrency = ILS, jodToIlsRate = 3\<rparr> = 17"
  using convertToBase_same_currency [of JOD "\<lparr>baseCurrency = JOD, jodToIlsRate = 3\<rparr>" 17]
    convertToBase_same_currency [of ILS "\<lparr>baseCurrency = ILS, jodToIlsRate = 3\<rparr>" 17]
  by simp

text \<open>
  Claim C7, as stated: converting twice with the same settings gives the amount back
  when the two source currencies differ. It does not: the second conversion finds the
  amount already in the base currency, so 100 ILS come out as 20.
\<close>

theorem roundtrip_same_settings_counterexample:
  "ILS \<noteq> JOD
   \<and> convertToBase (convertToBase 100 ILS \<lparr>baseCurrency = JOD, jodToIlsRate = 5\<rparr>) JOD
        \<lparr>baseCurrency = JOD, jodToIlsRate = 5\<rparr> = 20
   \<and> convertToBase (convertToBase 100 ILS \<lparr>baseCurrency = JOD, jodToIlsRate = 5\<rparr>) JOD
        \<lparr>baseCurrency = JOD, jodToIlsRate = 5\<rparr> \<noteq> 100"
  by (simp add: convertToBase_def)

text \<open>
  Claim C7, amended. Converting an amount from currency \<open>A\<close> into the base \<open>B\<close> and
  the result from \<open>B\<close> into the base \<open>A\<close>, with the same rate and \<open>A \<noteq> B\<close>, gives
  the amount back (exactly, over the reals).
\<close>

theorem roundtrip_swapped_base:
  "A \<noteq> B \<Longrightarrow>
     convertToBase (convertToBase x A (s\<lparr>baseCurrency := B\<rparr>)) B (s\<lparr>baseCurrency := A\<rparr>) = x"
  by (cases A; cases B) (simp_all add: convertToBase_def)

theorem roundtrip_swapped_base_witness:
  "ILS \<noteq> JOD
   \<and> convertToBase (convertToBase 100 ILS \<lparr>baseCurrency = JOD, jodToIlsRate = 5\<rparr>) JOD
        \<lparr>baseCurrency = ILS, jodToIlsRate = 5\<rparr> = 100"
  using roundtrip_swapped_base [of ILS JOD 100 "\<lparr>baseCurrency = JOD, jodToIlsRate = 5\<rparr>"]
  by simp

section \<open>Invoice generation: properties\<close>

text \<open>
  Claim C3. When the only active tenant rents an apartment for 200 JOD, the only
  utility charge of that unit is a water charge of 50 JOD for the requested month,
  the base currency is JOD, the scope is monthly and no tenant filter is set, then
  generation yields exactly one invoice, with \<open>rentBase = 200\<close>,
  \<open>utilitiesBase = 50\<close> and \<open>totalBase = 250\<close>, and puts it in front of the stored
  invoices.
\<close>

theorem generate_one_apartment_invoice:
  assumes "filter active (tenants d) = [t]"
    and "unitsById (units d) (tenant_unitId t) = Some u"
    and "unit_kind u = apartment" and "rentAmount u = 200" and "rentCurrency u = JOD"
    and "filter (\<lambda>c. util_unitId c = unit_id u) (utilities d) = [c]"
    and "util_type c = water" and "util_period c = period"
    and "util_amount c = 50" and "util_currency c = JOD"
    and "baseCurrency (settings d) = JOD"
  shows "\<exists>v. Home_newInvoices d monthly period [] rnd = Inr [v]
           \<and> rentBase v = 200 \<and> utilitiesBase v = 50 \<and> totalBase v = 250
           \<and> inv_tenantId v = tenant_id t \<and> inv_unitId v = unit_id u
           \<and> inv_period v = period \<and> inv_scope v = monthly
           \<and> Home_generateInvoices d monthly period [] rnd = Inr (d\<lparr>invoices := v # invoices d\<rparr>)"
  using assms
  by (simp add: Home_newInvoices_def Home_generateInvoices_def generateInvoices_def
      newInvoices_def eligibleTenants_def enumerate_eq_zip makeInvoice_def
      sumUtilitiesBase_def periodFilter_def convertToBase_def Let_def)

theorem generate_one_apartment_invoice_witness:
  "filter active (tenants demo_data) = [demo_tenant]
   \<and> unitsById (units demo_data) (tenant_unitId demo_tenant) = Some demo_unit
   \<and> filter (\<lambda>c. util_unitId c = unit_id demo_unit) (utilities demo_data) = [demo_charge]
   \<and> (\<exists>v. Home_newInvoices demo_data monthly ''2024-05'' [] (\<lambda>k. ''abcd1234'') = Inr [v]
          \<and> rentBase v = 200 \<and> utilitiesBase v = 50 \<and> totalBase v = 250)"
proof -
  have h1: "filter active (tenants demo_data) = [demo_tenant]"
    by (simp add: demo_data_def demo_tenant_def)
  have h2: "unitsById (units demo_data) (tenant_unitId demo_tenant) = Some demo_unit"
    by (simp add: demo_data_def demo_tenant_def demo_unit_def unitsById_def)
  have h3: "filter (\<lambda>c. util_unitId c = unit_id demo_unit) (utilities demo_data) = [demo_charge]"
    by (simp add: demo_data_def demo_charge_def demo_unit_def)
  have "\<exists>v. Home_newInvoices demo_data monthly ''2024-05'' [] (\<lambda>k. ''abcd1234'') = Inr [v]
          \<and> rentBase v = 200 \<and> utilitiesBase v = 50 \<and> totalBase v = 250
          \<and> inv_tenantId v = tenant_id demo_tenant \<and> inv_unitId v = unit_id demo_unit
          \<and> inv_period v = ''2024-05'' \<and> inv_scope v = monthly
          \<and> Home_generateInvoices demo_data monthly ''2024-05'' [] (\<lambda>k. ''abcd1234'')
              = Inr (demo_data\<lparr>invoices := v # invoices demo_data\<rparr>)"
    by (rule generate_one_apartment_invoice [OF h1 h2 _ _ _ h3])
      (simp_all add: demo_unit_def demo_charge_def demo_data_def)
  with h1 h2 h3 show ?thesis by blast
qed

text \<open>
  Claim C4, as stated: for every requested period, a charge of the unit counts under
  the yearly scope iff its period has the same leading four characters, the year, as
  the requested period, so no other year is included. It does not hold for a
  requested period shorter than four characters: with the empty period (the month
  input cleared, then the scope set to yearly) the prefix tested is empty, and the
  charges of 2023, 2024 and 2025 of the unit are all summed (230), although none of
  them has the leading four characters of the empty period (sum 0).
\<close>

theorem yearly_empty_period_counterexample:
  "sumUtilitiesBase year_data (settings year_data) ''unit_a'' [] yearly = 230
   \<and> (\<Sum>c \<leftarrow> filter (\<lambda>c. util_unitId c = ''unit_a'' \<and> take 4 (util_period c) = take 4 [])
                (utilities year_data).
        convertToBase (util_amount c) (util_currency c) (settings year_data)) = 0
   \<and> sumUtilitiesBase year_data (settings year_data) ''unit_a'' [] yearly
       \<noteq> (\<Sum>c \<leftarrow> filter (\<lambda>c. util_unitId c = ''unit_a'' \<and> take 4 (util_period c) = take 4 [])
                    (utilities year_data).
            convertToBase (util_amount c) (util_currency c) (settings year_data))"
  by (simp add: sumUtilitiesBase_def periodFilter_def year_data_def demo_data_def
      convertToBase_def)

text \<open>
  Claim C4, amended. The utilities total of a unit is the sum, after conversion to the
  base currency, of exactly the charges of that unit that match the requested period:
  under the monthly scope those whose period string equals the requested one, under
  the yearly scope those whose period string starts with the first four characters of
  the requested one. For every requested period of at least four characters that is:
  those whose first four characters, the year, are those of the requested period, so
  every month of that year and no other year.
\<close>

theorem sumUtilitiesBase_period_matching:
  "sumUtilitiesBase d s unitId periodStr monthly =
     (\<Sum>c \<leftarrow> filter (\<lambda>c. util_unitId c = unitId \<and> util_period c = periodStr) (utilities d).
        convertToBase (util_amount c) (util_currency c) s)
   \<and> sumUtilitiesBase d s unitId periodStr yearly =
     (\<Sum>c \<leftarrow> filter (\<lambda>c. util_unitId c = unitId \<and> prefix (take 4 periodStr) (util_period c))
                (utilities d).
        convertToBase (util_amount c) (util_currency c) s)
   \<and> (4 \<le> length periodStr \<longrightarrow>
       sumUtilitiesBase d s unitId periodStr yearly =
         (\<Sum>c \<leftarrow> filter (\<lambda>c. util_unitId c = unitId \<and> take 4 (util_period c) = take 4 periodStr)
                    (utilities d).
            convertToBase (util_amount c) (util_currency c) s))"
  by (simp add: sumUtilitiesBase_def periodFilter_def foldl_add_sum prefix_take4
      cong: conj_cong)

theorem sumUtilitiesBase_period_matching_witness:
  "4 \<le> length ''2024-03''
   \<and> sumUtilitiesBase year_data (settings year_data) ''unit_a'' ''2024-03'' yearly = 30
   \<and> sumUtilitiesBase year_data (settings year_data) ''unit_a'' ''2024-12'' monthly = 20"
  using sumUtilitiesBase_period_matching
          [of year_data "settings year_data" "''unit_a''" "''2024-03''"]
        sumUtilitiesBase_period_matching
          [of year_data "settings year_data" "''unit_a''" "''2024-12''"]
  by (simp add: year_data_def demo_data_def convertToBase_def)

text \<open>
  Claim C5. Generation never fails, makes one invoice per eligible tenant, and every
  invoice it makes has \<open>totalBase = rentBase + utilitiesBase\<close>, where \<open>rentBase\<close> is
  the rent of the tenant's unit converted to the base currency: the scope does not
  occur in it.
\<close>

theorem invoice_total_is_rent_plus_utilities:
  "\<exists>invs. newInvoices d byId s scope period tf rnd = Inr invs
     \<and> generateInvoices d byId s scope period tf rnd = Inr (d\<lparr>invoices := invs @ invoices d\<rparr>)
     \<and> length invs = length (eligibleTenants d byId scope tf)
     \<and> (\<forall>k < length invs.
           \<exists>u. byId (tenant_unitId (eligibleTenants d byId scope tf ! k)) = Some u
             \<and> rentBase (invs ! k) = convertToBase (rentAmount u) (rentCurrency u) s
             \<and> utilitiesBase (invs ! k) = sumUtilitiesBase d s (unit_id u) period scope
             \<and> totalBase (invs ! k) = rentBase (invs ! k) + utilitiesBase (invs ! k))"
proof -
  from invoice_rows [of d byId s scope period tf rnd] obtain invs where
    new: "newInvoices d byId s scope period tf rnd = Inr invs"
    and len: "length invs = length (eligibleTenants d byId scope tf)"
    and rows: "\<forall>k < length invs.
           \<exists>u. byId (tenant_unitId (eligibleTenants d byId scope tf ! k)) = Some u
             \<and> rentBase (invs ! k) = convertToBase (rentAmount u) (rentCurrency u) s
             \<and> utilitiesBase (invs ! k) = sumUtilitiesBase d s (unit_id u) period scope
             \<and> totalBase (invs ! k) = rentBase (invs ! k) + utilitiesBase (invs ! k)"
    by blast
  from new have "generateInvoices d byId s scope period tf rnd
                   = Inr (d\<lparr>invoices := invs @ invoices d\<rparr>)"
    by (simp add: generateInvoices_def)
  with new len rows show ?thesis by blast
qed

theorem invoice_total_is_rent_plus_utilities_witness:
  "0 < length (eligibleTenants demo_data (unitsById (units demo_data)) monthly [])
   \<and> (\<exists>invs. newInvoices demo_data (unitsById (units demo_data)) (settings demo_data)
                monthly ''2024-05'' [] (\<lambda>k. ''abcd1234'') = Inr invs
         \<and> length invs = 1
         \<and> totalBase (invs ! 0) = rentBase (invs ! 0) + utilitiesBase (invs ! 0))"
proof -
  have len: "length (eligibleTenants demo_data (unitsById (units demo_data)) monthly []) = 1"
    by (simp add: eligibleTenants_def demo_data_def demo_tenant_def demo_unit_def unitsById_def)
  from invoice_total_is_rent_plus_utilities
         [of demo_data "unitsById (units demo_data)" "settings demo_data" monthly
             "''2024-05''" "[]" "\<lambda>k. ''abcd1234''"]
  obtain invs where
    "newInvoices demo_data (unitsById (units demo_data)) (settings demo_data)
                monthly ''2024-05'' [] (\<lambda>k. ''abcd1234'') = Inr invs"
    "length invs = length (eligibleTenants demo_data (unitsById (units demo_data)) monthly [])"
    "\<forall>k < length invs. totalBase (invs ! k) = rentBase (invs ! k) + utilitiesBase (invs ! k)"
    by blast
  with len show ?thesis by auto
qed

text \<open>
  Claim C10. A tenant that generation selects has a unit in the units collection, the
  one the lookup by \<open>unitId\<close> returns; a tenant whose \<open>unitId\<close> names no unit of the
  collection is not selected; so the lookup asserted in \<open>generateInvoices\<close> succeeds
  for every selected tenant, generation returns, and every invoice it makes names an
  existing unit.
\<close>

theorem eligible_tenant_has_unit:
  "(\<forall>t \<in> set (eligibleTenants d (unitsById (units d)) scope tf).
       \<exists>u \<in> set (units d). unit_id u = tenant_unitId t
          \<and> unitsById (units d) (tenant_unitId t) = Some u)
   \<and> (\<forall>t. (\<forall>u \<in> set (units d). unit_id u \<noteq> tenant_unitId t) \<longrightarrow>
          t \<notin> set (eligibleTenants d (unitsById (units d)) scope tf))
   \<and> (\<exists>invs. Home_newInvoices d scope period tf rnd = Inr invs
          \<and> length invs = length (eligibleTenants d (unitsById (units d)) scope tf)
          \<and> (\<forall>v \<in> set invs. \<exists>u \<in> set (units d). inv_unitId v = unit_id u))
   \<and> (\<exists>d'. Home_generateInvoices d scope period tf rnd = Inr d')"
proof -
  let ?byId = "unitsById (units d)"
  let ?el = "eligibleTenants d ?byId scope tf"
  have a: "\<exists>u \<in> set (units d). unit_id u = tenant_unitId t \<and> ?byId (tenant_unitId t) = Some u"
    if "t \<in> set ?el" for t
  proof -
    from eligible_lookup [OF that] obtain u where "?byId (tenant_unitId t) = Some u" by blast
    with unitsById_sound [OF this] show ?thesis by blast
  qed
  from invoice_rows [of d ?byId "settings d" scope period tf rnd]
  obtain invs where invs: "newInvoices d ?byId (settings d) scope period tf rnd = Inr invs"
    and len: "length invs = length ?el"
    and rows: "\<forall>k < length invs. \<exists>u. ?byId (tenant_unitId (?el ! k)) = Some u
                 \<and> inv_unitId (invs ! k) = unit_id u"
    by blast
  have b: "\<exists>u \<in> set (units d). inv_unitId v = unit_id u" if "v \<in> set invs" for v
  proof -
    from that obtain k where k: "k < length invs" and v: "v = invs ! k"
      by (auto simp: in_set_conv_nth)
    with rows obtain u where "?byId (tenant_unitId (?el ! k)) = Some u"
      and "inv_unitId v = unit_id u" by blast
    with unitsById_sound [of "units d" "tenant_unitId (?el ! k)" u] show ?thesis by blast
  qed
  from a have c: "t \<notin> set ?el" if "\<forall>u \<in> set (units d). unit_id u \<noteq> tenant_unitId t" for t
    using that by blast
  from invs have e: "\<exists>d'. Home_generateInvoices d scope period tf rnd = Inr d'"
    by (simp add: Home_generateInvoices_def generateInvoices_def)
  from a b c e invs len show ?thesis
    by (simp add: Home_newInvoices_def)
qed

theorem eligible_tenant_has_unit_witness:
  "eligibleTenants two_unit_data (unitsById (units two_unit_data)) monthly [] = [demo_tenant]
   \<and> demo_unit \<in> set (units two_unit_data)
   \<and> unit_id demo_unit = tenant_unitId demo_tenant
   \<and> active orphan_tenant
   \<and> orphan_tenant \<in> set (tenants two_unit_data)
   \<and> orphan_tenant \<notin> set (eligibleTenants two_unit_data (unitsById (units two_unit_data)) yearly [])
   \<and> (\<exists>invs. Home_newInvoices two_unit_data yearly ''2024-01'' [] (\<lambda>k. ''abcd1234'') = Inr invs
         \<and> length invs = 1)"
proof -
  have a: "eligibleTenants two_unit_data (unitsById (units two_unit_data)) monthly [] = [demo_tenant]"
    and a': "length (eligibleTenants two_unit_data (unitsById (units two_unit_data)) yearly []) = 1"
    by (simp_all add: eligibleTenants_def two_unit_data_def unitsById_def demo_unit_def
        other_unit_def demo_tenant_def other_tenant_def orphan_tenant_def)
  have b: "demo_unit \<in> set (units two_unit_data)" "unit_id demo_unit = tenant_unitId demo_tenant"
    "active orphan_tenant" "orphan_tenant \<in> set (tenants two_unit_data)"
    by (simp_all add: two_unit_data_def demo_unit_def demo_tenant_def orphan_tenant_def)
  have c: "\<forall>u \<in> set (units two_unit_data). unit_id u \<noteq> tenant_unitId orphan_tenant"
    by (simp add: two_unit_data_def demo_unit_def other_unit_def orphan_tenant_def)
  note g = eligible_tenant_has_unit [of two_unit_data yearly "[]" "''2024-01''" "\<lambda>k. ''abcd1234''"]
  from g c have d:
    "orphan_tenant \<notin> set (eligibleTenants two_unit_data (unitsById (units two_unit_data)) yearly [])"
    by blast
  from g a' have e:
    "\<exists>invs. Home_newInvoices two_unit_data yearly ''2024-01'' [] (\<lambda>k. ''abcd1234'') = Inr invs
         \<and> length invs = 1"
    by auto
  from a b d e show ?thesis by simp
qed

section \<open>Deleting a unit\<close>

text \<open>
  Claim C6. Removing a unit from the local state leaves, in each of the five
  collections, exactly the records that do not reference the unit, in their order:
  no unit, tenant, utility charge, invoice or payment that references it remains,
  every record that does not reference it remains, and the settings are untouched.
\<close>

theorem removeUnit_cascade:
  "units (removeUnit i d) = filter (\<lambda>u. unit_id u \<noteq> i) (units d)
   \<and> tenants (removeUnit i d) = filter (\<lambda>t. tenant_unitId t \<noteq> i) (tenants d)
   \<and> utilities (removeUnit i d) = filter (\<lambda>c. util_unitId c \<noteq> i) (utilities d)
   \<and> invoices (removeUnit i d) = filter (\<lambda>v. inv_unitId v \<noteq> i) (invoices d)
   \<and> payments (removeUnit i d) = filter (\<lambda>p. pay_unitId p \<noteq> i) (payments d)
   \<and> settings (removeUnit i d) = settings d
   \<and> (\<forall>u \<in> set (units (removeUnit i d)). unit_id u \<noteq> i)
   \<and> (\<forall>t \<in> set (tenants (removeUnit i d)). tenant_unitId t \<noteq> i)
   \<and> (\<forall>c \<in> set (utilities (removeUnit i d)). util_unitId c \<noteq> i)
   \<and> (\<forall>v \<in> set (invoices (removeUnit i d)). inv_unitId v \<noteq> i)
   \<and> (\<forall>p \<in> set (payments (removeUnit i d)). pay_unitId p \<noteq> i)
   \<and> (\<forall>u \<in> set (units d). unit_id u \<noteq> i \<longrightarrow> u \<in> set (units (removeUnit i d)))
   \<and> (\<forall>t \<in> set (tenants d). tenant_unitId t \<noteq> i \<longrightarrow> t \<in> set (tenants (removeUnit i d)))
   \<and> (\<forall>c \<in> set (utilities d). util_unitId c \<noteq> i \<longrightarrow> c \<in> set (utilities (removeUnit i d)))
   \<and> (\<forall>v \<in> set (invoices d). inv_unitId v \<noteq> i \<longrightarrow> v \<in> set (invoices (removeUnit i d)))
   \<and> (\<forall>p \<in> set (payments d). pay_unitId p \<noteq> i \<longrightarrow> p \<in> set (payments (removeUnit i d)))"
  by (simp add: removeUnit_def)

theorem removeUnit_cascade_witness:
  "units (removeUnit ''unit_a'' two_unit_data) = [other_unit]
   \<and> tenants (removeUnit ''unit_a'' two_unit_data) = [other_tenant, orphan_tenant]
   \<and> map util_id (utilities (removeUnit ''unit_a'' two_unit_data)) = [''util_b'']
   \<and> map inv_id (invoices (removeUnit ''unit_a'' two_unit_data)) = [''inv_b'']
   \<and> map pay_id (payments (removeUnit ''unit_a'' two_unit_data)) = [''pay_b'']
   \<and> demo_tenant \<in> set (tenants two_unit_data)
   \<and> tenant_unitId demo_tenant = ''unit_a''
   \<and> other_tenant \<in> set (tenants (removeUnit ''unit_a'' two_unit_data))"
  using removeUnit_cascade [of "''unit_a''" two_unit_data]
  by (simp add: two_unit_data_def demo_unit_def other_unit_def demo_tenant_def other_tenant_def
      orphan_tenant_def demo_charge_def)

section \<open>Daily rate refresh\<close>

text \<open>
  Claim C8. The effect asks the rate provider only when no timestamp is stored (or the
  stored value is 0, which the code reads as none) or more than 24 hours have passed
  since it. With a stored timestamp other than 0 and at most 24 hours old the effect
  changes nothing: no request to the provider, no write to the store, no change of the
  page data or of the timestamp. Hence after a run that stored the time \<open>now\<close>, a
  second run within the next 24 hours does nothing.
\<close>

theorem daily_refresh_gate:
  "(rate_requests (dailyRateEffect remote apiKey reply now stamp pg) \<noteq> rate_requests pg \<longrightarrow>
      zc_rate_last pg = None \<or> zc_rate_last pg = Some 0
      \<or> (\<exists>t. zc_rate_last pg = Some t \<and> 24 * 60 * 60 * 1000 < now - t))
   \<and> (\<forall>t. zc_rate_last pg = Some t \<and> t \<noteq> 0 \<and> now - t \<le> 24 * 60 * 60 * 1000 \<longrightarrow>
          dailyRateEffect remote apiKey reply now stamp pg = pg)
   \<and> (\<forall>now2 pg1. pg1 = dailyRateEffect remote apiKey reply now stamp pg
          \<and> zc_rate_last pg1 = Some now \<and> now \<noteq> 0 \<and> now \<le> now2
          \<and> now2 - now \<le> 24 * 60 * 60 * 1000 \<longrightarrow>
          dailyRateEffect remote2 apiKey2 reply2 now2 stamp2 pg1 = pg1)"
proof (intro conjI allI impI)
  assume "rate_requests (dailyRateEffect remote apiKey reply now stamp pg) \<noteq> rate_requests pg"
  from dailyRateEffect_requests [OF this]
  show "zc_rate_last pg = None \<or> zc_rate_last pg = Some 0
      \<or> (\<exists>t. zc_rate_last pg = Some t \<and> 24 * 60 * 60 * 1000 < now - t)"
    by (simp add: rateIsStale_iff)
next
  fix t
  assume "zc_rate_last pg = Some t \<and> t \<noteq> 0 \<and> now - t \<le> 24 * 60 * 60 * 1000"
  then have "\<not> rateIsStale (zc_rate_last pg) now" by (simp add: rateIsStale_iff)
  then show "dailyRateEffect remote apiKey reply now stamp pg = pg"
    by (rule dailyRateEffect_fresh)
next
  fix now2 pg1
  assume "pg1 = dailyRateEffect remote apiKey reply now stamp pg
          \<and> zc_rate_last pg1 = Some now \<and> now \<noteq> 0 \<and> now \<le> now2
          \<and> now2 - now \<le> 24 * 60 * 60 * 1000"
  then have "zc_rate_last pg1 = Some now" and "now \<noteq> 0"
    and "now2 - now \<le> 24 * 60 * 60 * 1000" by blast+
  then have "\<not> rateIsStale (zc_rate_last pg1) now2" by (simp add: rateIsStale_iff)
  then show "dailyRateEffect remote2 apiKey2 reply2 now2 stamp2 pg1 = pg1"
    by (rule dailyRateEffect_fresh)
qed

theorem daily_refresh_gate_witness:
  "zc_rate_last fresh_page = Some 1700000000000
   \<and> dailyRateEffect (\<lambda>rq. None) (Some ''key'') (Response True (Json (Some 3.5)))
        1700003600000 ''2023-11-14T23:13:20.000Z'' fresh_page = fresh_page
   \<and> zc_rate_last stale_page = None
   \<and> rate_requests (dailyRateEffect (\<lambda>rq. None) (Some ''key'') (Response True (Json (Some 3.5)))
        1700000000000 ''2023-11-14T22:13:20.000Z'' stale_page) = 1
   \<and> rate_requests stale_page = 0
   \<and> zc_rate_last (dailyRateEffect (\<lambda>rq. None) (Some ''key'') (Response True (Json (Some 3.5)))
        1700000000000 ''2023-11-14T22:13:20.000Z'' stale_page) = Some 1700000000000
   \<and> dailyRateEffect (\<lambda>rq. None) (Some ''key'') (Response True (Json (Some 4)))
        1700003600000 ''2023-11-14T23:13:20.000Z''
        (dailyRateEffect (\<lambda>rq. None) (Some ''key'') (Response True (Json (Some 3.5)))
           1700000000000 ''2023-11-14T22:13:20.000Z'' stale_page)
      = dailyRateEffect (\<lambda>rq. None) (Some ''key'') (Response True (Json (Some 3.5)))
           1700000000000 ''2023-11-14T22:13:20.000Z'' stale_page"
proof -
  let ?run = "dailyRateEffect (\<lambda>rq. None) (Some ''key'') (Response True (Json (Some 3.5)))
           1700000000000 ''2023-11-14T22:13:20.000Z'' stale_page"
  have a: "zc_rate_last fresh_page = Some 1700000000000"
    by (simp add: fresh_page_def)
  have b: "zc_rate_last stale_page = None" "rate_requests stale_page = 0"
    by (simp_all add: stale_page_def fresh_page_def)
  have c: "rate_requests ?run = 1" "zc_rate_last ?run = Some 1700000000000"
    by (simp_all add: dailyRateEffect_def rateIsStale_def stale_page_def fresh_page_def
        fetchJodIlsRate_def falsy_def dbUpsertSettings_def gatewayWrite_def
        getCurrentUserId_def getSupabaseClient_def signed_in_def Let_def)
  note g = daily_refresh_gate
  from g [of "\<lambda>rq. None" "Some ''key''" "Response True (Json (Some 3.5))" 1700003600000
             "''2023-11-14T23:13:20.000Z''" fresh_page] a
  have d: "dailyRateEffect (\<lambda>rq. None) (Some ''key'') (Response True (Json (Some 3.5)))
        1700003600000 ''2023-11-14T23:13:20.000Z'' fresh_page = fresh_page"
    by simp
  from g [of "\<lambda>rq. None" "Some ''key''" "Response True (Json (Some 3.5))" 1700000000000
             "''2023-11-14T22:13:20.000Z''" stale_page
             "\<lambda>rq. None" "Some ''key''" "Response True (Json (Some 4))"
             "''2023-11-14T23:13:20.000Z''"] c
  have e: "dailyRateEffect (\<lambda>rq. None) (Some ''key'') (Response True (Json (Some 4)))
        1700003600000 ''2023-11-14T23:13:20.000Z'' ?run = ?run"
    by simp
  from a b c d e show ?thesis by simp
qed

section \<open>Persistence gateway: writes need an identity\<close>

text \<open>
  Claim C9, as stated: every write without an identity fails with the authorization
  error. It does not when no client can be obtained: \<open>getSupabaseClient\<close> is called
  first and throws its own error, here for a missing URL variable and for a URL that
  \<open>createClient\<close> rejects; \<open>getCurrentUserId\<close> is not reached.
\<close>

theorem write_without_client_counterexample:
  "falsy (auth_user_id no_env)
   \<and> fst (runWrite (\<lambda>rq. None) (DeleteUnit ''unit_a'') no_env) = Inl MissingEnv
   \<and> fst (runWrite (\<lambda>rq. None) (DeleteUnit ''unit_a'') no_env) \<noteq> Inl NotSignedIn
   \<and> falsy (auth_user_id bad_url)
   \<and> fst (runWrite (\<lambda>rq. None) (DeleteUnit ''unit_a'') bad_url) = Inl CreateClientFailed
   \<and> fst (runWrite (\<lambda>rq. None) (DeleteUnit ''unit_a'') bad_url) \<noteq> Inl NotSignedIn"
  by (simp add: dbDeleteUnit_def gatewayWrite_def getCurrentUserId_def getSupabaseClient_def
      no_env_def bad_url_def signed_out_def signed_in_def falsy_def prefix_def)

text \<open>
  Claim C9, amended. When \<open>auth.getUser()\<close> reports no user, or a user without an id,
  every write function of the gateway throws and sends no request to the store. The
  error thrown is the authorization error of \<open>getCurrentUserId\<close> whenever
  \<open>getSupabaseClient\<close> returns a client, that is, when a client is cached or both
  variables are set and \<open>createClient\<close> accepts them; otherwise it is the error of
  \<open>getSupabaseClient\<close>: the missing-variables error, or the exception of
  \<open>createClient\<close>.
\<close>

theorem write_without_identity_fails:
  assumes "falsy (auth_user_id sb)"
  shows "sent (snd (runWrite remote w sb)) = sent sb
     \<and> (\<exists>e. fst (runWrite remote w sb) = Inl e)
     \<and> (cached sb \<or>
          (\<exists>url key. env_url sb = Some url \<and> env_key sb = Some key \<and> url \<noteq> [] \<and> key \<noteq> []
             \<and> createClient_accepts sb url key)
        \<longrightarrow> fst (runWrite remote w sb) = Inl NotSignedIn)
     \<and> (\<not> cached sb \<and> (falsy (env_url sb) \<or> falsy (env_key sb))
        \<longrightarrow> fst (runWrite remote w sb) = Inl MissingEnv)
     \<and> (\<not> cached sb \<and>
          (\<exists>url key. env_url sb = Some url \<and> env_key sb = Some key \<and> url \<noteq> [] \<and> key \<noteq> []
             \<and> \<not> createClient_accepts sb url key)
        \<longrightarrow> fst (runWrite remote w sb) = Inl CreateClientFailed)"
proof -
  from runWrite_gateway obtain mk where mk: "runWrite remote w = gatewayWrite remote mk"
    by blast
  note g = gatewayWrite_no_identity [OF assms, of remote mk]
  from g(1) have a: "sent (snd (runWrite remote w sb)) = sent sb" by (simp add: mk)
  from g(2) have b: "\<exists>e. fst (runWrite remote w sb) = Inl e"
    by (cases "fst (getSupabaseClient sb)") (simp_all add: mk)
  from g(2) have c: "fst (runWrite remote w sb) = Inl NotSignedIn"
    if "cached sb \<or>
          (\<exists>url key. env_url sb = Some url \<and> env_key sb = Some key \<and> url \<noteq> [] \<and> key \<noteq> []
             \<and> createClient_accepts sb url key)"
    using that by (auto simp: mk getSupabaseClient_result falsy_def)
  from g(2) have d: "fst (runWrite remote w sb) = Inl MissingEnv"
    if "\<not> cached sb \<and> (falsy (env_url sb) \<or> falsy (env_key sb))"
    using that by (auto simp: mk getSupabaseClient_result)
  from g(2) have e: "fst (runWrite remote w sb) = Inl CreateClientFailed"
    if "\<not> cached sb \<and>
          (\<exists>url key. env_url sb = Some url \<and> env_key sb = Some key \<and> url \<noteq> [] \<and> key \<noteq> []
             \<and> \<not> createClient_accepts sb url key)"
    using that by (auto simp: mk getSupabaseClient_result falsy_def)
  from a b c d e show ?thesis by blast
qed

theorem write_without_identity_fails_witness:
  "falsy (auth_user_id signed_out)
   \<and> fst (runWrite (\<lambda>rq. None) (DeleteUnit ''unit_a'') signed_out) = Inl NotSignedIn
   \<and> sent (snd (runWrite (\<lambda>rq. None) (DeleteUnit ''unit_a'') signed_out)) = []
   \<and> falsy (auth_user_id (signed_in\<lparr>auth_user_id := Some []\<rparr>))
   \<and> fst (runWrite (\<lambda>rq. None) (ToggleTenantActive ''tenant_a'' False)
            (signed_in\<lparr>auth_user_id := Some []\<rparr>)) = Inl NotSignedIn
   \<and> falsy (auth_user_id no_env)
   \<and> sent (snd (runWrite (\<lambda>rq. None) (DeleteInvoice ''inv_a'') no_env)) = []
   \<and> falsy (auth_user_id bad_url)
   \<and> sent (snd (runWrite (\<lambda>rq. None) (DeletePayment ''pay_a'') bad_url)) = []"
proof -
  have a: "falsy (auth_user_id signed_out)"
    and b: "falsy (auth_user_id (signed_in\<lparr>auth_user_id := Some []\<rparr>))"
    and c: "falsy (auth_user_id no_env)"
    and d: "falsy (auth_user_id bad_url)"
    by (simp_all add: signed_out_def signed_in_def no_env_def bad_url_def falsy_def)
  from write_without_identity_fails [OF a, of "\<lambda>rq. None" "DeleteUnit ''unit_a''"]
    write_without_identity_fails [OF b, of "\<lambda>rq. None" "ToggleTenantActive ''tenant_a'' False"]
    write_without_identity_fails [OF c, of "\<lambda>rq. None" "DeleteInvoice ''inv_a''"]
    write_without_identity_fails [OF d, of "\<lambda>rq. None" "DeletePayment ''pay_a''"]
    a b c d
  show ?thesis
    by (simp add: signed_out_def signed_in_def no_env_def bad_url_def falsy_def prefix_def)
qed

end
